theory Spec2Isabelle
  imports Main "HOL-Library.Sublist"
begin

section \<open>Card-transaction validation and partition (models.py, app.py)\<close>

text \<open>
  The program is a thin layer over two libraries: pydantic (schema validation of one row)
  and json (serialisation of the output lines). The repository's own functions are
  \<^verbatim>\<open>not_empty\<close>, \<^verbatim>\<open>ensure_utc\<close>, \<^verbatim>\<open>validate_record\<close> (models.py) and
  \<^verbatim>\<open>_build_output_keys\<close>, \<^verbatim>\<open>handler\<close> (app.py); they are embedded below in the order
  of the source. What the libraries do with an arbitrary string (reading an integer,
  reading a timestamp, the type of the error entry when the reading fails, writing JSON
  text) is not in the repository: it is taken as the parameter \<open>L\<close> of the definitions,
  so that each theorem about \<open>L\<close> holds for whatever the libraries accept. What the
  libraries do structurally, as pydantic 2 and json do it (one error entry per failing
  field, collected in field order; the \<^verbatim>\<open>ValueError\<close> raised by a field validator is
  kept, as the exception instance, in the context of its entry; a \<^verbatim>\<open>datetime\<close> is
  rendered in the ISO-8601 format with its offset; \<^verbatim>\<open>json.dumps\<close> raises
  \<^verbatim>\<open>TypeError\<close> on an object that is not a JSON value) is written out.

  Python strings are modelled as \<open>string\<close>, each \<open>char\<close> standing for one code point
  below 256.
\<close>

subsection \<open>Python values, exceptions, timestamps\<close>

datatype pyval =
    PNone
  | PInt int
  | PStr string
  | PList "pyval list"
  | PDict "(string \<times> pyval) list"
  | PExc string string  \<comment> \<open>an exception instance: class name and message\<close>

text \<open>
  A \<^verbatim>\<open>datetime\<close> value. \<open>tzinfo\<close> is \<open>None\<close> for a naive timestamp and otherwise the
  fixed offset from UTC in seconds, which is also what \<^verbatim>\<open>utcoffset()\<close> returns.
\<close>

record datetime =
  year :: nat
  month :: nat
  day :: nat
  hour :: nat
  minute :: nat
  second :: nat
  microsecond :: nat
  tzinfo :: "int option"

definition utcoffset :: "datetime \<Rightarrow> int option" where
  "utcoffset v = tzinfo v"

text \<open>\<^verbatim>\<open>timezone.utc.utcoffset(v)\<close> is \<^verbatim>\<open>timedelta(0)\<close> for every \<open>v\<close>.\<close>

definition timezone_utc_utcoffset :: "datetime \<Rightarrow> int option" where
  "timezone_utc_utcoffset v = Some 0"

text \<open>
  One entry of \<^verbatim>\<open>ValidationError.errors()\<close>: its type identifier, location, input and
  context. The \<^verbatim>\<open>msg\<close> and \<^verbatim>\<open>url\<close> members, plain strings fixed by the library,
  are left out.
\<close>

record error_detail =
  err_type :: string
  err_loc :: string
  err_input :: pyval
  err_ctx :: "(string \<times> pyval) list"

datatype exn =
    ValueError string
  | TypeError string
  | AttributeError string
  | ValidationError "error_detail list"

text \<open>The library operations whose behaviour on arbitrary strings is not fixed here.\<close>

record pylib =
  str_as_int :: "string \<Rightarrow> int option"
    \<comment> \<open>pydantic's lax conversion of a string to \<^verbatim>\<open>int\<close>\<close>
  int_error_type :: "string \<Rightarrow> string"
    \<comment> \<open>the type of the entry when that conversion fails
        (\<^verbatim>\<open>int_parsing\<close>, \<^verbatim>\<open>int_parsing_size\<close>)\<close>
  str_as_datetime :: "string \<Rightarrow> string + datetime"
    \<comment> \<open>pydantic's conversion of a string to \<^verbatim>\<open>datetime\<close>; \<open>Inl\<close> is the parser's reason\<close>
  datetime_error_type :: "string \<Rightarrow> string"
    \<comment> \<open>the type of the entry when that conversion fails
        (\<^verbatim>\<open>datetime_from_date_parsing\<close>, \<^verbatim>\<open>datetime_parsing\<close>)\<close>
  json_text :: "pyval \<Rightarrow> string"
    \<comment> \<open>the text \<^verbatim>\<open>json.dumps\<close> writes for a JSON value\<close>

type_synonym raw_row = "(string \<times> string) list"

definition py_of_row :: "raw_row \<Rightarrow> pyval" where
  "py_of_row raw = PDict (map (\<lambda>(k, v). (k, PStr v)) raw)"

subsection \<open>models.py: the field validators\<close>

text \<open>\<^verbatim>\<open>str.isspace\<close> on the code points below 256, and \<^verbatim>\<open>str.strip()\<close>.\<close>

definition py_isspace :: "char \<Rightarrow> bool" where
  "py_isspace c = ((of_char c :: nat) \<in> {9, 10, 11, 12, 13, 28, 29, 30, 31, 32, 133, 160})"

definition strip :: "string \<Rightarrow> string" where
  "strip v = rev (dropWhile py_isspace (rev (dropWhile py_isspace v)))"

definition not_empty :: "string \<Rightarrow> exn + string" where
  "not_empty v =
     (if v = [] \<or> strip v = [] then Inl (ValueError ''must be non-empty'') else Inr v)"

definition ensure_utc :: "datetime \<Rightarrow> exn + datetime" where
  "ensure_utc v =
     (if tzinfo v = None \<or> utcoffset v \<noteq> timezone_utc_utcoffset v
      then Inl (ValueError ''created_at must be a UTC timestamp'')
      else Inr v)"

subsection \<open>models.py: the CardTransaction model\<close>

record CardTransaction =
  id' :: string
  organization_id :: string
  amount :: int
  currency :: string
  status :: string
  created_at :: datetime

text \<open>
  The result of validating one field: the value, the error entries, or an exception
  that is not a validation failure and leaves \<^verbatim>\<open>model_validate\<close> as it is.
\<close>

datatype 'a outcome = Valid 'a | Invalid "error_detail list" | Raised exn

text \<open>
  pydantic runs an after-validator on the value the field's own schema produced. A
  \<^verbatim>\<open>ValueError\<close> it raises becomes one \<^verbatim>\<open>value_error\<close> entry whose context holds the
  exception instance; any other exception propagates.
\<close>

definition run_field_validator ::
  "string \<Rightarrow> pyval \<Rightarrow> exn + 'a \<Rightarrow> 'a outcome" where
  "run_field_validator f inp r =
     (case r of
        Inr v \<Rightarrow> Valid v
      | Inl (ValueError m) \<Rightarrow>
          Invalid [\<lparr>err_type = ''value_error'', err_loc = f, err_input = inp,
                    err_ctx = [(''error'', PExc ''ValueError'' m)]\<rparr>]
      | Inl e \<Rightarrow> Raised e)"

definition missing_field :: "string \<Rightarrow> raw_row \<Rightarrow> 'a outcome" where
  "missing_field f raw =
     Invalid [\<lparr>err_type = ''missing'', err_loc = f, err_input = py_of_row raw, err_ctx = []\<rparr>]"

text \<open>\<^verbatim>\<open>str = Field(min_length=1)\<close> with the \<^verbatim>\<open>not_empty\<close> validator (id, organization_id).\<close>

definition validate_str_field :: "string \<Rightarrow> raw_row \<Rightarrow> string outcome" where
  "validate_str_field f raw =
     (case map_of raw f of
        None \<Rightarrow> missing_field f raw
      | Some s \<Rightarrow>
          if length s < 1
          then Invalid [\<lparr>err_type = ''string_too_short'', err_loc = f, err_input = PStr s,
                         err_ctx = [(''min_length'', PInt 1)]\<rparr>]
          else run_field_validator f (PStr s) (not_empty s))"

text \<open>\<^verbatim>\<open>amount: int = Field(ge=0)\<close>.\<close>

definition validate_amount :: "pylib \<Rightarrow> raw_row \<Rightarrow> int outcome" where
  "validate_amount L raw =
     (case map_of raw ''amount'' of
        None \<Rightarrow> missing_field ''amount'' raw
      | Some s \<Rightarrow>
          (case str_as_int L s of
             None \<Rightarrow>
               Invalid [\<lparr>err_type = int_error_type L s, err_loc = ''amount'',
                         err_input = PStr s, err_ctx = []\<rparr>]
           | Some n \<Rightarrow>
               if n \<ge> 0 then Valid n
               else Invalid [\<lparr>err_type = ''greater_than_equal'', err_loc = ''amount'',
                              err_input = PStr s, err_ctx = [(''ge'', PInt 0)]\<rparr>]))"

text \<open>The \<^verbatim>\<open>expected\<close> text of a \<^verbatim>\<open>literal_error\<close>: \<^verbatim>\<open>'EUR', 'USD' or 'GBP'\<close>.\<close>

definition quoted :: "string \<Rightarrow> string" where
  "quoted s = [CHR 0x27] @ s @ [CHR 0x27]"

fun join :: "string \<Rightarrow> string list \<Rightarrow> string" where
  "join sep [] = []"
| "join sep [x] = x"
| "join sep (x # y # ys) = x @ sep @ join sep (y # ys)"

definition expected_text :: "string list \<Rightarrow> string" where
  "expected_text xs =
     (case xs of
        [] \<Rightarrow> []
      | [x] \<Rightarrow> quoted x
      | _ \<Rightarrow> join '', '' (map quoted (butlast xs)) @ '' or '' @ quoted (last xs))"

text \<open>\<^verbatim>\<open>Literal[...]\<close> (currency, status).\<close>

definition validate_literal :: "string \<Rightarrow> string list \<Rightarrow> raw_row \<Rightarrow> string outcome" where
  "validate_literal f allowed raw =
     (case map_of raw f of
        None \<Rightarrow> missing_field f raw
      | Some s \<Rightarrow>
          if s \<in> set allowed then Valid s
          else Invalid [\<lparr>err_type = ''literal_error'', err_loc = f, err_input = PStr s,
                         err_ctx = [(''expected'', PStr (expected_text allowed))]\<rparr>])"

text \<open>\<^verbatim>\<open>created_at: datetime\<close> with the \<^verbatim>\<open>ensure_utc\<close> validator.\<close>

definition validate_created_at :: "pylib \<Rightarrow> raw_row \<Rightarrow> datetime outcome" where
  "validate_created_at L raw =
     (case map_of raw ''created_at'' of
        None \<Rightarrow> missing_field ''created_at'' raw
      | Some s \<Rightarrow>
          (case str_as_datetime L s of
             Inl reason \<Rightarrow>
               Invalid [\<lparr>err_type = datetime_error_type L s, err_loc = ''created_at'',
                         err_input = PStr s, err_ctx = [(''error'', PStr reason)]\<rparr>]
           | Inr dt \<Rightarrow> run_field_validator ''created_at'' (PStr s) (ensure_utc dt)))"

fun errors_of :: "'a outcome \<Rightarrow> error_detail list" where
  "errors_of (Invalid es) = es"
| "errors_of _ = []"

fun raised_of :: "'a outcome \<Rightarrow> exn option" where
  "raised_of (Raised e) = Some e"
| "raised_of _ = None"

fun first_some :: "'a option list \<Rightarrow> 'a option" where
  "first_some [] = None"
| "first_some (Some e # _) = Some e"
| "first_some (None # rs) = first_some rs"

text \<open>
  \<^verbatim>\<open>CardTransaction.model_validate(raw)\<close>: the fields are validated in the order of
  their declaration, every failing field adds its entries, and a \<^verbatim>\<open>ValidationError\<close>
  carrying all of them is raised unless every field is valid. Keys of \<open>raw\<close> that are
  not fields are ignored.
\<close>

definition model_validate :: "pylib \<Rightarrow> raw_row \<Rightarrow> exn + CardTransaction" where
  "model_validate L raw =
     (let r1 = validate_str_field ''id'' raw;
          r2 = validate_str_field ''organization_id'' raw;
          r3 = validate_amount L raw;
          r4 = validate_literal ''currency'' [''EUR'', ''USD'', ''GBP''] raw;
          r5 = validate_literal ''status'' [''Success'', ''Error'', ''Pending''] raw;
          r6 = validate_created_at L raw
      in case first_some [raised_of r1, raised_of r2, raised_of r3, raised_of r4,
                          raised_of r5, raised_of r6] of
           Some e \<Rightarrow> Inl e
         | None \<Rightarrow>
             (case (r1, r2, r3, r4, r5, r6) of
                (Valid a, Valid b, Valid c, Valid d, Valid e, Valid f) \<Rightarrow>
                  Inr \<lparr>id' = a, organization_id = b, amount = c, currency = d,
                       status = e, created_at = f\<rparr>
              | _ \<Rightarrow>
                  Inl (ValidationError
                         (errors_of r1 @ errors_of r2 @ errors_of r3 @ errors_of r4 @
                          errors_of r5 @ errors_of r6))))"

subsection \<open>models.py: validate_record\<close>

datatype record_value = Model CardTransaction | Raw raw_row

definition validate_record ::
  "pylib \<Rightarrow> raw_row \<Rightarrow> exn + (bool \<times> record_value \<times> error_detail list option)" where
  "validate_record L raw =
     (case model_validate L raw of
        Inr obj \<Rightarrow> Inr (True, Model obj, None)
      | Inl (ValidationError errs) \<Rightarrow> Inr (False, Raw raw, Some errs)
      | Inl e \<Rightarrow> Inl e)"

subsection \<open>app.py: serialisation of one line\<close>

text \<open>
  \<^verbatim>\<open>json.dumps\<close> walks the value depth first and raises \<^verbatim>\<open>TypeError\<close> at the first
  object that is not a JSON value; here the only such objects are exception instances.
\<close>

fun first_unserializable :: "pyval \<Rightarrow> string option" where
  "first_unserializable PNone = None"
| "first_unserializable (PInt i) = None"
| "first_unserializable (PStr s) = None"
| "first_unserializable (PList xs) = first_some (map first_unserializable xs)"
| "first_unserializable (PDict kvs) =
     first_some (map (\<lambda>kv. first_unserializable (snd kv)) kvs)"
| "first_unserializable (PExc c m) = Some c"

definition json_dumps :: "pylib \<Rightarrow> pyval \<Rightarrow> exn + string" where
  "json_dumps L v =
     (case first_unserializable v of
        None \<Rightarrow> Inr (json_text L v)
      | Some c \<Rightarrow> Inl (TypeError (''Object of type '' @ c @ '' is not JSON serializable'')))"

text \<open>
  How \<^verbatim>\<open>model_dump(mode="json")\<close> renders a \<^verbatim>\<open>datetime\<close>, as pydantic 2 does: date and
  time zero-padded, the microseconds as six digits when they are not zero, then
  \<^verbatim>\<open>Z\<close> for the offset zero, \<^verbatim>\<open>+HH:MM\<close> or \<^verbatim>\<open>-HH:MM\<close> for another offset, and
  nothing for a naive value. The fields of a \<^verbatim>\<open>datetime\<close> are within their ranges (the
  year below 10000, the microseconds below 1000000), where the padded decimal is the
  digits taken here.
\<close>

definition digit_char :: "nat \<Rightarrow> char" where
  "digit_char n = ''0123456789abcdef'' ! (n mod 16)"

definition pad2 :: "nat \<Rightarrow> string" where
  "pad2 n = [digit_char (n div 10 mod 10), digit_char (n mod 10)]"

definition pad4 :: "nat \<Rightarrow> string" where
  "pad4 n = [digit_char (n div 1000 mod 10), digit_char (n div 100 mod 10),
             digit_char (n div 10 mod 10), digit_char (n mod 10)]"

definition pad6 :: "nat \<Rightarrow> string" where
  "pad6 n = [digit_char (n div 100000 mod 10), digit_char (n div 10000 mod 10),
             digit_char (n div 1000 mod 10), digit_char (n div 100 mod 10),
             digit_char (n div 10 mod 10), digit_char (n mod 10)]"

definition tz_text :: "int option \<Rightarrow> string" where
  "tz_text tz =
     (case tz of
        None \<Rightarrow> []
      | Some off \<Rightarrow>
          if off = 0 then ''Z''
          else (if off < 0 then ''-'' else ''+'') @ pad2 (nat \<bar>off\<bar> div 3600) @ '':'' @
               pad2 (nat \<bar>off\<bar> mod 3600 div 60))"

definition datetime_json :: "datetime \<Rightarrow> string" where
  "datetime_json dt =
     pad4 (year dt) @ ''-'' @ pad2 (month dt) @ ''-'' @ pad2 (day dt) @ ''T'' @
     pad2 (hour dt) @ '':'' @ pad2 (minute dt) @ '':'' @ pad2 (second dt) @
     (if microsecond dt = 0 then [] else ''.'' @ pad6 (microsecond dt)) @
     tz_text (tzinfo dt)"

text \<open>\<^verbatim>\<open>value.model_dump(mode="json")\<close>.\<close>

definition model_dump_json :: "CardTransaction \<Rightarrow> pyval" where
  "model_dump_json m =
     PDict [(''id'', PStr (id' m)),
            (''organization_id'', PStr (organization_id m)),
            (''amount'', PInt (amount m)),
            (''currency'', PStr (currency m)),
            (''status'', PStr (status m)),
            (''created_at'', PStr (datetime_json (created_at m)))]"

text \<open>One entry of \<^verbatim>\<open>e.errors()\<close> as the dict it is; the context is present when not empty.\<close>

definition py_of_error :: "error_detail \<Rightarrow> pyval" where
  "py_of_error e =
     PDict ([(''type'', PStr (err_type e)),
             (''loc'', PList [PStr (err_loc e)]),
             (''input'', err_input e)] @
            (if err_ctx e = [] then [] else [(''ctx'', PDict (err_ctx e))]))"

definition py_of_errors :: "error_detail list option \<Rightarrow> pyval" where
  "py_of_errors errors =
     (case errors of None \<Rightarrow> PNone | Some es \<Rightarrow> PList (map py_of_error es))"

text \<open>The dict \<^verbatim>\<open>{"row": row, "errors": errors}\<close> of an invalid line.\<close>

definition invalid_entry :: "raw_row \<Rightarrow> error_detail list option \<Rightarrow> pyval" where
  "invalid_entry row errors = PDict [(''row'', py_of_row row), (''errors'', py_of_errors errors)]"

subsection \<open>app.py: the loop of handler over the rows\<close>

text \<open>
  The state of the loop is the pair \<open>(valid_lines, invalid_lines)\<close>; \<^verbatim>\<open>append\<close> adds at
  the end. An exception raised in the body ends the loop and the handler.
\<close>

fun process_rows ::
  "pylib \<Rightarrow> raw_row list \<Rightarrow> string list \<times> string list \<Rightarrow> exn + (string list \<times> string list)"
where
  "process_rows L [] (valid_lines, invalid_lines) = Inr (valid_lines, invalid_lines)"
| "process_rows L (row # rows) (valid_lines, invalid_lines) =
     (case validate_record L row of
        Inl e \<Rightarrow> Inl e
      | Inr (ok, val, errors) \<Rightarrow>
          if ok then
            (case val of
               Raw r \<Rightarrow> Inl (AttributeError ''model_dump'')
             | Model m \<Rightarrow>
                 (case json_dumps L (model_dump_json m) of
                    Inl e \<Rightarrow> Inl e
                  | Inr line \<Rightarrow> process_rows L rows (valid_lines @ [line], invalid_lines)))
          else
            (case json_dumps L (invalid_entry row errors) of
               Inl e \<Rightarrow> Inl e
             | Inr line \<Rightarrow> process_rows L rows (valid_lines, invalid_lines @ [line])))"

subsection \<open>app.py: the output keys\<close>

text \<open>\<^verbatim>\<open>s.endswith(suffix)\<close>.\<close>

definition endswith :: "string \<Rightarrow> string \<Rightarrow> bool" where
  "endswith s suf = (length suf \<le> length s \<and> drop (length s - length suf) s = suf)"

text \<open>
  \<^verbatim>\<open>input_key[:-4]\<close> keeps the first \<open>len - 4\<close> characters, and none when the key is
  shorter than four; truncating subtraction on \<open>nat\<close> is the same.
\<close>

definition build_output_keys :: "string \<Rightarrow> exn + (string \<times> string)" where
  "build_output_keys input_key =
     (if \<not> endswith input_key ''.csv''
      then Inl (ValueError (''Unexpected input key extension (expected .csv): '' @ input_key))
      else
        let base = take (length input_key - 4) input_key;
            valid_key = base @ ''_valid.jsonl'';
            invalid_key = base @ ''_invalid.jsonl''
        in Inr (valid_key, invalid_key))"

subsection \<open>app.py: handler\<close>

record handler_result =
  landing_bucket :: string
  input_key :: string
  green_bucket :: string
  valid_key :: string
  invalid_key :: string
  valid_count :: nat
  invalid_count :: nat

text \<open>One call of \<^verbatim>\<open>s3.put_object\<close>.\<close>

record s3_put =
  Bucket :: string
  Key :: string
  Body :: string
  ContentType :: string

text \<open>
  Steps 1 and 2 of the handler (reading bucket and key from the event, fetching and
  decoding the object, \<^verbatim>\<open>csv.DictReader\<close>) are input and output: the handler is embedded
  from the point where it holds the landing bucket, the input key, the green bucket and
  the rows of the reader. It returns the result dict and the \<^verbatim>\<open>put_object\<close> calls it
  made, in order, or the exception that ended it. The lines are ASCII text, so
  \<^verbatim>\<open>encode("utf-8")\<close> leaves them as they are.
\<close>

definition handler ::
  "pylib \<Rightarrow> string \<Rightarrow> string \<Rightarrow> string \<Rightarrow> raw_row list \<Rightarrow> exn + (handler_result \<times> s3_put list)"
where
  "handler L lbucket ikey gbucket rows =
     (case process_rows L rows ([], []) of
        Inl e \<Rightarrow> Inl e
      | Inr (valid_lines, invalid_lines) \<Rightarrow>
          (case build_output_keys ikey of
             Inl e \<Rightarrow> Inl e
           | Inr (vkey, invkey) \<Rightarrow>
               let puts1 =
                     (if valid_lines \<noteq> []
                      then [\<lparr>Bucket = gbucket, Key = vkey,
                             Body = join [CHR 0x0A] valid_lines,
                             ContentType = ''application/json''\<rparr>]
                      else []);
                   puts2 =
                     (if invalid_lines \<noteq> []
                      then [\<lparr>Bucket = gbucket, Key = invkey,
                             Body = join [CHR 0x0A] invalid_lines,
                             ContentType = ''application/json''\<rparr>]
                      else [])
               in Inr (\<lparr>landing_bucket = lbucket, input_key = ikey, green_bucket = gbucket,
                        valid_key = vkey, invalid_key = invkey,
                        valid_count = length valid_lines,
                        invalid_count = length invalid_lines\<rparr>,
                       puts1 @ puts2)))"

subsection \<open>A reference instance of the library operations\<close>

text \<open>
  A small, executable instance of \<open>pylib\<close>, for evaluating the definitions on concrete
  rows. It reads signed decimal integers of at most 4300 digits. It reads a text of
  digits only as Unix time, as pydantic 2 does: seconds up to 20000000000 and
  milliseconds above, with \<open>tzinfo\<close> UTC; and it reads timestamps of the shape
  \<^verbatim>\<open>YYYY-MM-DDTHH:MM:SS\<close> followed by nothing, \<^verbatim>\<open>Z\<close> or \<^verbatim>\<open>+HH:MM\<close> / \<^verbatim>\<open>-HH:MM\<close>.
  It writes JSON text as \<^verbatim>\<open>json.dumps\<close> does with its defaults. The libraries accept
  more than this; no theorem below depends on the instance except the closed examples
  that name it.
\<close>

definition digit_of :: "char \<Rightarrow> nat option" where
  "digit_of c =
     (let n = (of_char c :: nat) in if 48 \<le> n \<and> n \<le> 57 then Some (n - 48) else None)"

fun digits_value :: "string \<Rightarrow> nat \<Rightarrow> nat option" where
  "digits_value [] acc = Some acc"
| "digits_value (c # cs) acc =
     (case digit_of c of None \<Rightarrow> None | Some d \<Rightarrow> digits_value cs (10 * acc + d))"

definition read_nat :: "string \<Rightarrow> nat option" where
  "read_nat s = (if s = [] then None else digits_value s 0)"

definition ref_str_as_int :: "string \<Rightarrow> int option" where
  "ref_str_as_int s =
     (case strip s of
        [] \<Rightarrow> None
      | c # cs \<Rightarrow>
          if 4300 < length (strip s) then None
          else if c = CHR ''-'' then map_option (\<lambda>n. - int n) (read_nat cs)
          else if c = CHR ''+'' then map_option int (read_nat cs)
          else map_option int (read_nat (c # cs)))"

definition ref_int_error_type :: "string \<Rightarrow> string" where
  "ref_int_error_type s =
     (if 4300 < length (strip s) then ''int_parsing_size'' else ''int_parsing'')"

text \<open>The civil date of a day counted from 1970-01-01, and the instant of a Unix time.\<close>

definition civil_from_days :: "nat \<Rightarrow> nat \<times> nat \<times> nat" where
  "civil_from_days days =
     (let z = days + 719468;
          era = z div 146097;
          doe = z mod 146097;
          yoe = (doe - doe div 1460 + doe div 36524 - doe div 146096) div 365;
          doy = doe - (365 * yoe + yoe div 4 - yoe div 100);
          mp = (5 * doy + 2) div 153;
          d = doy - (153 * mp + 2) div 5 + 1;
          m = (if mp < 10 then mp + 3 else mp - 9);
          y = yoe + era * 400 + (if m \<le> 2 then 1 else 0)
      in (y, m, d))"

definition unix_datetime :: "nat \<Rightarrow> datetime" where
  "unix_datetime n =
     (let secs = (if n \<le> 20000000000 then n else n div 1000);
          us = (if n \<le> 20000000000 then 0 else n mod 1000 * 1000);
          r = secs mod 86400
      in case civil_from_days (secs div 86400) of
           (y, m, d) \<Rightarrow>
             \<lparr>year = y, month = m, day = d, hour = r div 3600, minute = r mod 3600 div 60,
              second = r mod 60, microsecond = us, tzinfo = Some 0\<rparr>)"

definition read_tz :: "string \<Rightarrow> int option option" where
  "read_tz t =
     (if t = [] then Some None
      else if t = ''Z'' then Some (Some 0)
      else if length t = 6 \<and> t ! 3 = CHR '':'' \<and> (t ! 0 = CHR ''+'' \<or> t ! 0 = CHR ''-'')
      then (case (read_nat (take 2 (drop 1 t)), read_nat (drop 4 t)) of
              (Some h, Some m) \<Rightarrow>
                Some (Some ((if t ! 0 = CHR ''-'' then - 1 else 1) * int (h * 3600 + m * 60)))
            | _ \<Rightarrow> None)
      else None)"

definition ref_str_as_datetime :: "string \<Rightarrow> string + datetime" where
  "ref_str_as_datetime s =
     (if read_nat s \<noteq> None
      then (case read_nat s of
              Some n \<Rightarrow>
                if year (unix_datetime n) \<le> 9999 then Inr (unix_datetime n)
                else Inl ''dates after 9999 are not supported as unix timestamps''
            | None \<Rightarrow> Inl ''input is too short'')
      else if length s < 19 then Inl ''input is too short''
      else if s ! 4 \<noteq> CHR ''-'' \<or> s ! 7 \<noteq> CHR ''-'' \<or> s ! 10 \<noteq> CHR ''T'' \<or>
              s ! 13 \<noteq> CHR '':'' \<or> s ! 16 \<noteq> CHR '':''
      then Inl ''invalid datetime separator''
      else
        (case (read_nat (take 4 s), read_nat (take 2 (drop 5 s)), read_nat (take 2 (drop 8 s)),
               read_nat (take 2 (drop 11 s)), read_nat (take 2 (drop 14 s)),
               read_nat (take 2 (drop 17 s)), read_tz (drop 19 s)) of
           (Some y, Some mo, Some d, Some h, Some mi, Some se, Some tz) \<Rightarrow>
             if y = 0 then Inl ''year 0 is out of range''
             else if mo < 1 \<or> 12 < mo
             then Inl ''month value is outside expected range of 1-12''
             else if d < 1 \<or> 31 < d then Inl ''day value is outside expected range''
             else if 23 < h then Inl ''hour value is outside expected range of 0-23''
             else if 59 < mi then Inl ''minute value is outside expected range of 0-59''
             else if 59 < se then Inl ''second value is outside expected range of 0-59''
             else Inr \<lparr>year = y, month = mo, day = d, hour = h, minute = mi, second = se,
                       microsecond = 0, tzinfo = tz\<rparr>
         | _ \<Rightarrow> Inl ''invalid character''))"

text \<open>
  A text that is well formed but names no \<^verbatim>\<open>datetime\<close> of Python (the year 0) fails
  with \<^verbatim>\<open>datetime_parsing\<close>, any other with \<^verbatim>\<open>datetime_from_date_parsing\<close>.
\<close>

definition ref_datetime_error_type :: "string \<Rightarrow> string" where
  "ref_datetime_error_type s =
     (if ref_str_as_datetime s = Inl ''year 0 is out of range'' then ''datetime_parsing''
      else ''datetime_from_date_parsing'')"

fun show_nat :: "nat \<Rightarrow> string" where
  "show_nat n =
     (if n < 10 then [digit_char n] else show_nat (n div 10) @ [digit_char (n mod 10)])"

definition show_int :: "int \<Rightarrow> string" where
  "show_int i = (if i < 0 then CHR ''-'' # show_nat (nat (- i)) else show_nat (nat i))"

definition json_escape :: "char \<Rightarrow> string" where
  "json_escape c =
     (let n = (of_char c :: nat) in
      if n = 34 \<or> n = 92 then [CHR 0x5C, c]
      else if n = 8 then [CHR 0x5C, CHR ''b'']
      else if n = 9 then [CHR 0x5C, CHR ''t'']
      else if n = 10 then [CHR 0x5C, CHR ''n'']
      else if n = 12 then [CHR 0x5C, CHR ''f'']
      else if n = 13 then [CHR 0x5C, CHR ''r'']
      else if n < 32 \<or> 126 < n
      then [CHR 0x5C, CHR ''u'', CHR ''0'', CHR ''0'', digit_char (n div 16), digit_char (n mod 16)]
      else [c])"

definition json_string :: "string \<Rightarrow> string" where
  "json_string s = [CHR 0x22] @ concat (map json_escape s) @ [CHR 0x22]"

fun ref_json_text :: "pyval \<Rightarrow> string" where
  "ref_json_text PNone = ''null''"
| "ref_json_text (PInt i) = show_int i"
| "ref_json_text (PStr s) = json_string s"
| "ref_json_text (PList xs) = ''['' @ join '', '' (map ref_json_text xs) @ '']''"
| "ref_json_text (PDict kvs) =
     ''{'' @ join '', '' (map (\<lambda>kv. json_string (fst kv) @ '': '' @ ref_json_text (snd kv)) kvs)
     @ ''}''"
| "ref_json_text (PExc c m) = []"

definition ref_lib :: pylib where
  "ref_lib = \<lparr>str_as_int = ref_str_as_int, int_error_type = ref_int_error_type,
              str_as_datetime = ref_str_as_datetime,
              datetime_error_type = ref_datetime_error_type, json_text = ref_json_text\<rparr>"

subsection \<open>The field rules of the specification (section 4.1)\<close>




text \<open>The two example rows of section 8 of the specification.\<close>

definition example_valid_row :: raw_row where
  "example_valid_row =
     [(''id'', ''1''), (''organization_id'', ''org1''), (''amount'', ''100''),
      (''currency'', ''EUR''), (''status'', ''Success''),
      (''created_at'', ''2025-11-10T10:00:00+00:00'')]"

definition example_invalid_row :: raw_row where
  "example_invalid_row =
     [(''id'', []), (''organization_id'', ''org1''), (''amount'', ''-5''),
      (''currency'', ''XXX''), (''status'', ''Done''),
      (''created_at'', ''2025-11-10T10:00:00'')]"

subsection \<open>Auxiliary notions for the proofs\<close>

text \<open>All error entries of a row, in the order of the fields.\<close>

definition field_errors :: "pylib \<Rightarrow> raw_row \<Rightarrow> error_detail list" where
  "field_errors L raw =
     errors_of (validate_str_field ''id'' raw) @
     errors_of (validate_str_field ''organization_id'' raw) @
     errors_of (validate_amount L raw) @
     errors_of (validate_literal ''currency'' [''EUR'', ''USD'', ''GBP''] raw) @
     errors_of (validate_literal ''status'' [''Success'', ''Error'', ''Pending''] raw) @
     errors_of (validate_created_at L raw)"

text \<open>A field outcome that is a value, or exactly one entry located at the field.\<close>

definition one_or_valid :: "string \<Rightarrow> 'a outcome \<Rightarrow> bool" where
  "one_or_valid f r =
     (case r of
        Valid v \<Rightarrow> True
      | Invalid es \<Rightarrow> (case es of [e] \<Rightarrow> err_loc e = f | _ \<Rightarrow> False)
      | Raised e \<Rightarrow> False)"

subsection \<open>The loop, row by row\<close>

text \<open>
  What the body of the loop makes of one row: whether \<open>validate_record\<close> accepts it, the
  model or the errors it returns, the line appended for it, and whether \<^verbatim>\<open>json.dumps\<close>
  can write that line.
\<close>

definition is_valid_row :: "pylib \<Rightarrow> raw_row \<Rightarrow> bool" where
  "is_valid_row L row = (case validate_record L row of Inr (ok, val, errors) \<Rightarrow> ok | Inl e \<Rightarrow> False)"

definition row_errors :: "pylib \<Rightarrow> raw_row \<Rightarrow> error_detail list option" where
  "row_errors L row =
     (case validate_record L row of Inr (ok, val, errors) \<Rightarrow> errors | Inl e \<Rightarrow> None)"

definition row_model :: "pylib \<Rightarrow> raw_row \<Rightarrow> CardTransaction option" where
  "row_model L row =
     (case validate_record L row of Inr (ok, Model m, errors) \<Rightarrow> Some m | _ \<Rightarrow> None)"

definition valid_line :: "pylib \<Rightarrow> raw_row \<Rightarrow> string" where
  "valid_line L row =
     (case row_model L row of Some m \<Rightarrow> json_text L (model_dump_json m) | None \<Rightarrow> [])"

definition invalid_line :: "pylib \<Rightarrow> raw_row \<Rightarrow> string" where
  "invalid_line L row = json_text L (invalid_entry row (row_errors L row))"

definition dumps_ok :: "pylib \<Rightarrow> raw_row \<Rightarrow> bool" where
  "dumps_ok L row =
     (is_valid_row L row \<or> first_unserializable (invalid_entry row (row_errors L row)) = None)"

text \<open>
  An ISO-8601 timestamp text that carries an explicit UTC offset: the shape
  \<^verbatim>\<open>YYYY-MM-DDTHH:MM:SS\<close>, optionally a point and digits of a fraction, then \<^verbatim>\<open>Z\<close> or
  \<^verbatim>\<open>+00:00\<close>.
\<close>

definition is_digit :: "char \<Rightarrow> bool" where
  "is_digit c = (digit_of c \<noteq> None)"

definition utc_designator :: "string \<Rightarrow> bool" where
  "utc_designator r = (r = ''Z'' \<or> r = ''+00:00'')"

definition iso8601_utc :: "string \<Rightarrow> bool" where
  "iso8601_utc s =
     (19 < length s \<and>
      list_all is_digit (map (nth s) [0, 1, 2, 3, 5, 6, 8, 9, 11, 12, 14, 15, 17, 18]) \<and>
      s ! 4 = CHR ''-'' \<and> s ! 7 = CHR ''-'' \<and> s ! 10 = CHR ''T'' \<and>
      s ! 13 = CHR '':'' \<and> s ! 16 = CHR '':'' \<and>
      (let r = drop 19 s in
       utc_designator r \<or>
       (hd r = CHR ''.'' \<and> takeWhile is_digit (tl r) \<noteq> [] \<and>
        utc_designator (dropWhile is_digit (tl r)))))"

text \<open>
  Whether a field validator of the model raises its \<^verbatim>\<open>ValueError\<close> on the row: an id or
  an organization_id that is not empty and is whitespace only, or a created_at that
  reads as a timestamp whose offset is absent or not zero.
\<close>

definition blank_field :: "raw_row \<Rightarrow> string \<Rightarrow> bool" where
  "blank_field raw f =
     (case map_of raw f of None \<Rightarrow> False | Some s \<Rightarrow> s \<noteq> [] \<and> strip s = [])"

definition not_utc_field :: "pylib \<Rightarrow> raw_row \<Rightarrow> bool" where
  "not_utc_field L raw =
     (case map_of raw ''created_at'' of
        None \<Rightarrow> False
      | Some s \<Rightarrow>
          (case str_as_datetime L s of Inl reason \<Rightarrow> False | Inr dt \<Rightarrow> tzinfo dt \<noteq> Some 0))"

definition validator_raises :: "pylib \<Rightarrow> raw_row \<Rightarrow> bool" where
  "validator_raises L raw =
     (blank_field raw ''id'' \<or> blank_field raw ''organization_id'' \<or> not_utc_field L raw)"

text \<open>Rows for closed examples, and the instant all of them name.\<close>

definition blank_id_row :: raw_row where
  "blank_id_row =
     [(''id'', '' ''), (''organization_id'', ''org1''), (''amount'', ''100''),
      (''currency'', ''EUR''), (''status'', ''Success''),
      (''created_at'', ''2025-11-10T10:00:00+00:00'')]"

definition negative_amount_row :: raw_row where
  "negative_amount_row =
     [(''id'', ''2''), (''organization_id'', ''org1''), (''amount'', ''-5''),
      (''currency'', ''EUR''), (''status'', ''Success''),
      (''created_at'', ''2025-11-10T10:00:00+00:00'')]"

definition third_row :: raw_row where
  "third_row =
     [(''id'', ''3''), (''organization_id'', ''org1''), (''amount'', ''100''),
      (''currency'', ''EUR''), (''status'', ''Success''),
      (''created_at'', ''2025-11-10T10:00:00+00:00'')]"

definition unix_time_row :: raw_row where
  "unix_time_row =
     [(''id'', ''1''), (''organization_id'', ''org1''), (''amount'', ''100''),
      (''currency'', ''EUR''), (''status'', ''Success''), (''created_at'', ''1762768800'')]"

definition utc_instant :: datetime where
  "utc_instant = \<lparr>year = 2025, month = 11, day = 10, hour = 10, minute = 0, second = 0,
                  microsecond = 0, tzinfo = Some 0\<rparr>"

section \<open>Properties of the validator\<close>

subsection \<open>The field validators\<close>

lemma one_or_valid_iff:
  "one_or_valid f r \<longleftrightarrow> (\<exists>v. r = Valid v) \<or> (\<exists>e. r = Invalid [e] \<and> err_loc e = f)"
  by (auto simp: one_or_valid_def split: outcome.splits list.splits)

lemma strip_nonempty: "strip v \<noteq> [] \<Longrightarrow> v \<noteq> []"
  by (auto simp: strip_def)

lemma not_empty_cases:
  "not_empty v = (if strip v = [] then Inl (ValueError ''must be non-empty'') else Inr v)"
  by (auto simp: not_empty_def strip_def)

lemma ensure_utc_cases:
  "ensure_utc v = (if tzinfo v = Some 0 then Inr v
                   else Inl (ValueError ''created_at must be a UTC timestamp''))"
  by (auto simp: ensure_utc_def utcoffset_def timezone_utc_utcoffset_def)

lemma validate_str_field_eq:
  "validate_str_field f raw =
     (case map_of raw f of
        None \<Rightarrow> missing_field f raw
      | Some s \<Rightarrow>
          if s = [] then Invalid [\<lparr>err_type = ''string_too_short'', err_loc = f, err_input = PStr s,
                         err_ctx = [(''min_length'', PInt 1)]\<rparr>]
          else if strip s = [] then Invalid [\<lparr>err_type = ''value_error'', err_loc = f, err_input = PStr s,
                    err_ctx = [(''error'', PExc ''ValueError'' ''must be non-empty'')]\<rparr>]
          else Valid s)"
  by (simp add: validate_str_field_def run_field_validator_def not_empty_cases split: option.splits)

lemma validate_created_at_eq:
  "validate_created_at L raw =
     (case map_of raw ''created_at'' of
        None \<Rightarrow> missing_field ''created_at'' raw
      | Some s \<Rightarrow>
          (case str_as_datetime L s of
             Inl reason \<Rightarrow>
               Invalid [\<lparr>err_type = datetime_error_type L s, err_loc = ''created_at'',
                         err_input = PStr s, err_ctx = [(''error'', PStr reason)]\<rparr>]
           | Inr dt \<Rightarrow> if tzinfo dt = Some 0 then Valid dt else
              Invalid [\<lparr>err_type = ''value_error'', err_loc = ''created_at'', err_input = PStr s,
                    err_ctx = [(''error'', PExc ''ValueError'' ''created_at must be a UTC timestamp'')]\<rparr>]))"
  by (simp add: validate_created_at_def run_field_validator_def ensure_utc_cases split: option.splits sum.splits)

lemma str_field_shape: "one_or_valid f (validate_str_field f raw)"
  by (simp add: one_or_valid_iff validate_str_field_eq missing_field_def split: option.splits)

lemma amount_shape: "one_or_valid ''amount'' (validate_amount L raw)"
  by (simp add: one_or_valid_iff validate_amount_def missing_field_def split: option.splits)

lemma literal_shape: "one_or_valid f (validate_literal f allowed raw)"
  by (simp add: one_or_valid_iff validate_literal_def missing_field_def split: option.splits)

lemma created_at_shape: "one_or_valid ''created_at'' (validate_created_at L raw)"
  by (simp add: one_or_valid_iff validate_created_at_eq missing_field_def split: option.splits sum.splits)

lemma combine_invalid:
  assumes "one_or_valid f1 r1" "one_or_valid f2 r2" "one_or_valid f3 r3"
          "one_or_valid f4 r4" "one_or_valid f5 r5" "one_or_valid f6 r6"
    and "errors_of r1 @ errors_of r2 @ errors_of r3 @ errors_of r4 @ errors_of r5 @ errors_of r6 \<noteq> []"
  shows "(case first_some [raised_of r1, raised_of r2, raised_of r3, raised_of r4,
                          raised_of r5, raised_of r6] of
           Some e \<Rightarrow> Inl e
         | None \<Rightarrow>
             (case (r1, r2, r3, r4, r5, r6) of
                (Valid a, Valid b, Valid c, Valid d, Valid e, Valid f) \<Rightarrow>
                  Inr \<lparr>id' = a, organization_id = b, amount = c, currency = d,
                       status = e, created_at = f\<rparr>
              | _ \<Rightarrow>
                  Inl (ValidationError
                         (errors_of r1 @ errors_of r2 @ errors_of r3 @ errors_of r4 @
                          errors_of r5 @ errors_of r6)))) =
     Inl (ValidationError (errors_of r1 @ errors_of r2 @ errors_of r3 @ errors_of r4 @ errors_of r5 @ errors_of r6))"
  using assms unfolding one_or_valid_iff
  by (elim disjE exE conjE) simp_all

lemma combine_valid:
  assumes "one_or_valid f1 r1" "one_or_valid f2 r2" "one_or_valid f3 r3"
          "one_or_valid f4 r4" "one_or_valid f5 r5" "one_or_valid f6 r6"
    and "errors_of r1 @ errors_of r2 @ errors_of r3 @ errors_of r4 @ errors_of r5 @ errors_of r6 = []"
  shows "\<exists>a b c d e f. r1 = Valid a \<and> r2 = Valid b \<and> r3 = Valid c \<and> r4 = Valid d \<and> r5 = Valid e \<and> r6 = Valid f"
  using assms unfolding one_or_valid_iff
  by (elim disjE exE conjE) simp_all

lemma model_validate_invalid:
  "field_errors L raw \<noteq> [] \<Longrightarrow> model_validate L raw = Inl (ValidationError (field_errors L raw))"
  unfolding model_validate_def field_errors_def Let_def
  by (rule combine_invalid[OF str_field_shape str_field_shape amount_shape literal_shape literal_shape created_at_shape])

lemma model_validate_valid:
  assumes "validate_str_field ''id'' raw = Valid a"
    "validate_str_field ''organization_id'' raw = Valid b"
    "validate_amount L raw = Valid c"
    "validate_literal ''currency'' [''EUR'', ''USD'', ''GBP''] raw = Valid d"
    "validate_literal ''status'' [''Success'', ''Error'', ''Pending''] raw = Valid e"
    "validate_created_at L raw = Valid f"
  shows "model_validate L raw = Inr \<lparr>id' = a, organization_id = b, amount = c, currency = d,
                       status = e, created_at = f\<rparr>"
  using assms by (simp add: model_validate_def)

lemma model_validate_no_errors:
  assumes "field_errors L raw = []"
  shows "\<exists>a b c d e f.
    validate_str_field ''id'' raw = Valid a \<and>
    validate_str_field ''organization_id'' raw = Valid b \<and>
    validate_amount L raw = Valid c \<and>
    validate_literal ''currency'' [''EUR'', ''USD'', ''GBP''] raw = Valid d \<and>
    validate_literal ''status'' [''Success'', ''Error'', ''Pending''] raw = Valid e \<and>
    validate_created_at L raw = Valid f"
  using assms unfolding field_errors_def
  by (rule combine_valid[OF str_field_shape str_field_shape amount_shape literal_shape literal_shape created_at_shape])

lemma validate_record_cases:
  "validate_record L raw =
     (if field_errors L raw = []
      then Inr (True, Model (case model_validate L raw of Inr m \<Rightarrow> m), None)
      else Inr (False, Raw raw, Some (field_errors L raw)))"
proof (cases "field_errors L raw = []")
  case True
  from model_validate_no_errors[OF True] obtain a b c d e f where
    "validate_str_field ''id'' raw = Valid a"
    "validate_str_field ''organization_id'' raw = Valid b"
    "validate_amount L raw = Valid c"
    "validate_literal ''currency'' [''EUR'', ''USD'', ''GBP''] raw = Valid d"
    "validate_literal ''status'' [''Success'', ''Error'', ''Pending''] raw = Valid e"
    "validate_created_at L raw = Valid f" by blast
  from model_validate_valid[OF this] True show ?thesis
    by (simp add: validate_record_def)
next
  case False
  from model_validate_invalid[OF False] False show ?thesis
    by (simp add: validate_record_def)
qed

subsection \<open>The reference instance on the example values\<close>

lemma ref_int_100: "str_as_int ref_lib ''100'' = Some 100"
  by (simp add: ref_lib_def ref_str_as_int_def strip_def py_isspace_def read_nat_def digit_of_def)

lemma ref_int_m5: "str_as_int ref_lib ''-5'' = Some (- 5)"
  by (simp add: ref_lib_def ref_str_as_int_def strip_def py_isspace_def read_nat_def digit_of_def)

lemma ref_dt_utc: "str_as_datetime ref_lib ''2025-11-10T10:00:00+00:00'' =
   Inr \<lparr>year = 2025, month = 11, day = 10, hour = 10, minute = 0, second = 0, microsecond = 0, tzinfo = Some 0\<rparr>"
  by (simp add: ref_lib_def ref_str_as_datetime_def read_nat_def read_tz_def digit_of_def)

lemma ref_dt_naive: "str_as_datetime ref_lib ''2025-11-10T10:00:00'' =
   Inr \<lparr>year = 2025, month = 11, day = 10, hour = 10, minute = 0, second = 0, microsecond = 0, tzinfo = None\<rparr>"
  by (simp add: ref_lib_def ref_str_as_datetime_def read_nat_def read_tz_def digit_of_def)

lemma ref_dt_plus2: "str_as_datetime ref_lib ''2025-11-10T10:00:00+02:00'' =
   Inr \<lparr>year = 2025, month = 11, day = 10, hour = 10, minute = 0, second = 0, microsecond = 0, tzinfo = Some 7200\<rparr>"
  by (simp add: ref_lib_def ref_str_as_datetime_def read_nat_def read_tz_def digit_of_def)

lemma ref_dt_bad: "str_as_datetime ref_lib ''yesterday'' = Inl ''input is too short''"
  by (simp add: ref_lib_def ref_str_as_datetime_def read_nat_def digit_of_def)

lemma strip_1: "strip ''1'' = ''1''" "strip ''org1'' = ''org1''" "strip '''' = ''''" "strip '' '' = ''''"
  by (simp_all add: strip_def py_isspace_def)

subsection \<open>Error locations and violated fields\<close>








section \<open>The claims about the validator\<close>

text \<open>
  Claim C1. A row that holds the six fields, each satisfying its rule of section 4.1
  (id and organization_id not empty after trimming, amount an integer not below zero,
  currency and status among their values, created_at a timestamp with offset zero), is
  accepted: \<open>validate_record\<close> returns \<open>(True, model, None)\<close>, where the model holds the
  four strings unchanged, the amount as the integer read and created_at as the
  timezone-aware timestamp read.
\<close>

theorem validate_record_accepts:
  assumes "map_of raw ''id'' = Some i"
    and "map_of raw ''organization_id'' = Some org"
    and "map_of raw ''amount'' = Some a"
    and "map_of raw ''currency'' = Some c"
    and "map_of raw ''status'' = Some s"
    and "map_of raw ''created_at'' = Some t"
    and "length (strip i) \<noteq> 0" and "length (strip org) \<noteq> 0"
    and "str_as_int L a = Some n" and "\<not> n < 0"
    and "c = ''EUR'' \<or> c = ''USD'' \<or> c = ''GBP''"
    and "s = ''Success'' \<or> s = ''Error'' \<or> s = ''Pending''"
    and "str_as_datetime L t = Inr dt" and "tzinfo dt = Some 0"
  shows "validate_record L raw =
           Inr (True, Model \<lparr>id' = i, organization_id = org, amount = n, currency = c,
                              status = s, created_at = dt\<rparr>, None)"
proof -
  have 1: "validate_str_field ''id'' raw = Valid i"
    using assms(1,7) by (auto simp: validate_str_field_eq dest: strip_nonempty)
  have 2: "validate_str_field ''organization_id'' raw = Valid org"
    using assms(2,8) by (auto simp: validate_str_field_eq dest: strip_nonempty)
  have 3: "validate_amount L raw = Valid n"
    using assms(3,9,10) by (simp add: validate_amount_def)
  have 4: "validate_literal ''currency'' [''EUR'', ''USD'', ''GBP''] raw = Valid c"
    using assms(4,11) by (auto simp: validate_literal_def)
  have 5: "validate_literal ''status'' [''Success'', ''Error'', ''Pending''] raw = Valid s"
    using assms(5,12) by (auto simp: validate_literal_def)
  have 6: "validate_created_at L raw = Valid dt"
    using assms(6,13,14) by (simp add: validate_created_at_eq)
  show ?thesis
    by (simp add: validate_record_def model_validate_valid[OF 1 2 3 4 5 6])
qed

text \<open>The example row of the specification is accepted, with amount 100 and offset zero.\<close>

theorem validate_record_accepts_witness:
  "validate_record ref_lib example_valid_row =
   Inr (True,
        Model \<lparr>id' = ''1'', organization_id = ''org1'', amount = 100, currency = ''EUR'',
               status = ''Success'',
               created_at = \<lparr>year = 2025, month = 11, day = 10, hour = 10, minute = 0,
                              second = 0, microsecond = 0, tzinfo = Some 0\<rparr>\<rparr>,
        None)"
  by (rule validate_record_accepts[where a = "''100''" and t = "''2025-11-10T10:00:00+00:00''"])
     (simp_all add: example_valid_row_def strip_1 ref_int_100 ref_dt_utc)



text \<open>
  Claim C10. For every dict of strings, with any keys and any values,
  \<open>validate_record\<close> returns and raises nothing: the result is \<open>(True, model, None)\<close> or
  \<open>(False, raw, errors)\<close> with the row it was given and a list of errors that is not
  empty.
\<close>

theorem validate_record_total:
  "(\<exists>m. validate_record L raw = Inr (True, Model m, None)) \<or>
   (\<exists>errs. validate_record L raw = Inr (False, Raw raw, Some errs) \<and> errs \<noteq> [])"
  by (simp add: validate_record_cases)

subsection \<open>Accepted rows carry a UTC timestamp\<close>


text \<open>
  What holds of the created_at field for every library instance, in terms of what the
  library's conversion returns: when it returns no timestamp, the field fails with one
  entry of the type the library names; when it returns a timestamp that has no offset,
  or an offset other than zero, the field fails with one \<^verbatim>\<open>value_error\<close> entry raised
  by \<open>ensure_utc\<close>; the field is valid exactly when it returns a timestamp whose offset
  is present and zero.
\<close>

lemma created_at_outcomes:
  assumes "map_of raw ''created_at'' = Some s"
  shows "(\<forall>reason. str_as_datetime L s = Inl reason \<longrightarrow>
            validate_created_at L raw =
              Invalid [\<lparr>err_type = datetime_error_type L s, err_loc = ''created_at'',
                        err_input = PStr s, err_ctx = [(''error'', PStr reason)]\<rparr>]) \<and>
         (\<forall>dt. str_as_datetime L s = Inr dt \<and> tzinfo dt \<noteq> Some 0 \<longrightarrow>
            validate_created_at L raw =
              Invalid [\<lparr>err_type = ''value_error'', err_loc = ''created_at'',
                        err_input = PStr s,
                        err_ctx = [(''error'', PExc ''ValueError''
                                               ''created_at must be a UTC timestamp'')]\<rparr>]) \<and>
         ((\<exists>v. validate_created_at L raw = Valid v) \<longleftrightarrow>
            (\<exists>dt. str_as_datetime L s = Inr dt \<and> tzinfo dt = Some 0))"
  using assms by (auto simp: validate_created_at_eq split: sum.splits)

subsection \<open>A text of digits as the value of the created-at field\<close>

lemma read_nat_unix: "read_nat ''1762768800'' = Some 1762768800"
  by (simp add: read_nat_def digit_of_def)

lemma civil_unix: "civil_from_days 20402 = (2025, 11, 10)"
  unfolding civil_from_days_def Let_def by simp

lemma unix_datetime_instant: "unix_datetime 1762768800 = utc_instant"
  unfolding unix_datetime_def Let_def by (simp add: civil_unix utc_instant_def)

lemma ref_dt_unix: "str_as_datetime ref_lib ''1762768800'' = Inr utc_instant"
  by (simp add: ref_lib_def ref_str_as_datetime_def read_nat_unix unix_datetime_instant)
     (simp add: utc_instant_def)

lemma digits_unix: "list_all is_digit ''1762768800''"
  by (simp add: is_digit_def digit_of_def)

lemma not_iso_unix: "\<not> iso8601_utc ''1762768800''"
  by (simp add: iso8601_utc_def)

text \<open>
  Claim C5, which the code does not meet. The claim is that created_at fails with a
  format error when the value is not an ISO-8601 timestamp, and is valid only for
  values that carry an explicit offset equal to UTC; the docstring of the model says the
  same (\<^verbatim>\<open>created_at is a valid ISO8601 UTC timestamp\<close>). The field is declared
  \<^verbatim>\<open>datetime\<close>, and pydantic also reads a text of digits as Unix time with \<open>tzinfo\<close>
  UTC, which \<open>ensure_utc\<close> lets pass: the value \<^verbatim>\<open>1762768800\<close> consists of digits only,
  is no ISO-8601 text and names no offset, and the row that holds it is accepted, with
  created_at the instant 2025-11-10 10:00:00 UTC.
\<close>

theorem unix_time_accepted:
  "list_all is_digit ''1762768800'' \<and> \<not> iso8601_utc ''1762768800'' \<and>
   map_of unix_time_row ''created_at'' = Some ''1762768800'' \<and>
   validate_created_at ref_lib unix_time_row = Valid utc_instant \<and>
   validate_record ref_lib unix_time_row =
     Inr (True,
          Model \<lparr>id' = ''1'', organization_id = ''org1'', amount = 100, currency = ''EUR'',
                 status = ''Success'', created_at = utc_instant\<rparr>,
          None)"
proof (intro conjI)
  show "list_all is_digit ''1762768800''" by (rule digits_unix)
  show "\<not> iso8601_utc ''1762768800''" by (rule not_iso_unix)
  show "map_of unix_time_row ''created_at'' = Some ''1762768800''"
    by (simp add: unix_time_row_def)
  have t: "tzinfo utc_instant = Some 0" by (simp add: utc_instant_def)
  show "validate_created_at ref_lib unix_time_row = Valid utc_instant"
    by (simp add: unix_time_row_def validate_created_at_eq ref_dt_unix t)
  show "validate_record ref_lib unix_time_row =
     Inr (True,
          Model \<lparr>id' = ''1'', organization_id = ''org1'', amount = 100, currency = ''EUR'',
                 status = ''Success'', created_at = utc_instant\<rparr>,
          None)"
    by (simp add: unix_time_row_def validate_record_def model_validate_def
          validate_str_field_eq validate_amount_def validate_literal_def
          validate_created_at_eq strip_1 ref_int_100 ref_dt_unix t)
qed

section \<open>The claims about the output keys\<close>

lemma endswith_suffix: "endswith s suf \<longleftrightarrow> suffix suf s"
proof
  assume "endswith s suf"
  then have "s = take (length s - length suf) s @ suf"
    by (metis append_take_drop_id endswith_def)
  then show "suffix suf s" by (rule suffixI)
next
  assume "suffix suf s"
  then obtain zs where "s = zs @ suf" by (auto simp: suffix_def)
  then show "endswith s suf" by (simp add: endswith_def)
qed

text \<open>
  Claim C6. \<open>build_output_keys\<close> fails, with the \<^verbatim>\<open>ValueError\<close> that names the
  unexpected extension, exactly when the key does not end with \<^verbatim>\<open>.csv\<close>; for a key
  \<open>b @ ''.csv''\<close> it returns \<open>b\<close> followed by \<^verbatim>\<open>_valid.jsonl\<close> and \<open>b\<close> followed
  by \<^verbatim>\<open>_invalid.jsonl\<close>.
\<close>

theorem build_output_keys_suffix:
  "(\<not> suffix ''.csv'' k \<longrightarrow>
      build_output_keys k =
        Inl (ValueError (''Unexpected input key extension (expected .csv): '' @ k))) \<and>
   (\<forall>b. k = b @ ''.csv'' \<longrightarrow>
      build_output_keys k = Inr (b @ ''_valid.jsonl'', b @ ''_invalid.jsonl'')) \<and>
   ((\<exists>e. build_output_keys k = Inl e) \<longleftrightarrow> \<not> suffix ''.csv'' k)"
  by (auto simp: build_output_keys_def endswith_suffix Let_def suffix_def)

text \<open>
  The two examples of the specification: a dated csv key, and a key ending in txt.
\<close>

theorem build_output_keys_suffix_witness:
  "build_output_keys ''a/b/card_transaction_2025-11-10.csv'' =
     Inr (''a/b/card_transaction_2025-11-10_valid.jsonl'',
          ''a/b/card_transaction_2025-11-10_invalid.jsonl'') \<and>
   build_output_keys ''a/b/file.txt'' =
     Inl (ValueError ''Unexpected input key extension (expected .csv): a/b/file.txt'')"
  using build_output_keys_suffix[of "''a/b/card_transaction_2025-11-10.csv''"]
        build_output_keys_suffix[of "''a/b/file.txt''"]
  by (simp add: suffix_def)

section \<open>Properties of the handler\<close>

subsection \<open>One step of the loop\<close>

lemma dumps_model: "json_dumps L (model_dump_json m) = Inr (json_text L (model_dump_json m))"
  by (simp add: json_dumps_def model_dump_json_def)

lemma validate_record_valid_row:
  "is_valid_row L row \<Longrightarrow>
   \<exists>m. validate_record L row = Inr (True, Model m, None) \<and> row_model L row = Some m"
  using validate_record_cases[of L row]
  by (auto simp: is_valid_row_def row_model_def split: if_splits)

lemma validate_record_invalid_row:
  "\<not> is_valid_row L row \<Longrightarrow>
   \<exists>errs. validate_record L row = Inr (False, Raw row, Some errs) \<and> errs \<noteq> [] \<and>
          row_errors L row = Some errs"
  using validate_record_cases[of L row]
  by (auto simp: is_valid_row_def row_errors_def split: if_splits)

lemma process_rows_step_valid:
  assumes "is_valid_row L row"
  shows "process_rows L (row # rows) (vl, il) = process_rows L rows (vl @ [valid_line L row], il)"
proof -
  from validate_record_valid_row[OF assms] obtain m where
    "validate_record L row = Inr (True, Model m, None)" "row_model L row = Some m" by blast
  then show ?thesis by (simp add: process_rows.simps(2) dumps_model valid_line_def)
qed

lemma process_rows_step_invalid:
  assumes "\<not> is_valid_row L row"
  shows "process_rows L (row # rows) (vl, il) =
           (case first_unserializable (invalid_entry row (row_errors L row)) of
              None \<Rightarrow> process_rows L rows (vl, il @ [invalid_line L row])
            | Some c \<Rightarrow> Inl (TypeError (''Object of type '' @ c @ '' is not JSON serializable'')))"
proof -
  from validate_record_invalid_row[OF assms] obtain errs where
    "validate_record L row = Inr (False, Raw row, Some errs)" "row_errors L row = Some errs" by blast
  then show ?thesis
    by (simp add: process_rows.simps(2) json_dumps_def invalid_line_def split: option.splits)
qed

declare process_rows.simps(2) [simp del]

subsection \<open>The whole loop\<close>

lemma process_rows_result:
  "process_rows L rows (v0, i0) = Inr (vl, il) \<Longrightarrow>
   vl = v0 @ map (valid_line L) (filter (is_valid_row L) rows) \<and>
   il = i0 @ map (invalid_line L) (filter (\<lambda>r. \<not> is_valid_row L r) rows)"
proof (induction rows arbitrary: v0 i0)
  case Nil
  then show ?case by simp
next
  case (Cons row rows)
  show ?case
  proof (cases "is_valid_row L row")
    case True
    with Cons.prems have "process_rows L rows (v0 @ [valid_line L row], i0) = Inr (vl, il)"
      by (simp add: process_rows_step_valid)
    from Cons.IH[OF this] True show ?thesis by simp
  next
    case False
    with Cons.prems have "process_rows L rows (v0, i0 @ [invalid_line L row]) = Inr (vl, il)"
      by (simp add: process_rows_step_invalid split: option.splits)
    from Cons.IH[OF this] False show ?thesis by simp
  qed
qed

lemma process_rows_returns:
  "\<forall>row\<in>set rows. dumps_ok L row \<Longrightarrow> \<exists>vl il. process_rows L rows (v0, i0) = Inr (vl, il)"
proof (induction rows arbitrary: v0 i0)
  case Nil
  then show ?case by simp
next
  case (Cons row rows)
  then show ?case
    by (cases "is_valid_row L row")
       (auto simp: process_rows_step_valid process_rows_step_invalid dumps_ok_def)
qed

lemma process_rows_raises:
  "\<not> (\<forall>row\<in>set rows. dumps_ok L row) \<Longrightarrow> \<exists>e. process_rows L rows (v0, i0) = Inl e"
proof (induction rows arbitrary: v0 i0)
  case Nil
  then show ?case by simp
next
  case (Cons row rows)
  show ?case
  proof (cases "dumps_ok L row")
    case True
    with Cons.prems have "\<not> (\<forall>row\<in>set rows. dumps_ok L row)" by simp
    from Cons.IH[OF this] True show ?thesis
      by (cases "is_valid_row L row")
         (auto simp: process_rows_step_valid process_rows_step_invalid dumps_ok_def)
  next
    case False
    then show ?thesis
      by (auto simp: process_rows_step_invalid dumps_ok_def)
  qed
qed

lemma handler_counts:
  assumes "handler L lbucket ikey gbucket rows = Inr (res, puts)"
  shows "valid_count res = length (filter (is_valid_row L) rows)"
    and "invalid_count res = length (filter (\<lambda>r. \<not> is_valid_row L r) rows)"
    and "valid_count res + invalid_count res = length rows"
proof -
  from assms obtain vl il where p: "process_rows L rows ([], []) = Inr (vl, il)"
    and c: "valid_count res = length vl" "invalid_count res = length il"
    by (auto simp: handler_def Let_def split: sum.splits prod.splits)
  from process_rows_result[OF p] c
  show "valid_count res = length (filter (is_valid_row L) rows)"
    and "invalid_count res = length (filter (\<lambda>r. \<not> is_valid_row L r) rows)"
    by simp_all
  then show "valid_count res + invalid_count res = length rows"
    by (simp add: sum_length_filter_compl)
qed

subsection \<open>What json.dumps can write\<close>

lemma first_some_all_None: "(\<And>x. x \<in> set xs \<Longrightarrow> f x = None) \<Longrightarrow> first_some (map f xs) = None"
  by (induction xs) auto

lemma py_of_row_serializable: "first_unserializable (py_of_row row) = None"
  by (auto simp: py_of_row_def intro!: first_some_all_None)

lemma invalid_entry_unserializable:
  "first_unserializable (invalid_entry row (Some (e # es))) =
     (case first_unserializable (py_of_error e) of
        Some c \<Rightarrow> Some c
      | None \<Rightarrow> first_unserializable (invalid_entry row (Some es)))"
  by (simp add: invalid_entry_def py_of_errors_def py_of_row_serializable split: option.splits)

subsection \<open>The example rows on the reference instance\<close>

lemmas eval_validate =
  validate_record_def model_validate_def validate_str_field_eq validate_amount_def
  validate_literal_def validate_created_at_eq strip_1 ref_int_100 ref_int_m5 ref_dt_utc
  ref_dt_naive

lemma strip_23: "strip ''2'' = ''2''" "strip ''3'' = ''3''"
  by (simp_all add: strip_def py_isspace_def)

lemma vr_example_valid:
  "validate_record ref_lib example_valid_row =
     Inr (True, Model \<lparr>id' = ''1'', organization_id = ''org1'', amount = 100, currency = ''EUR'',
                       status = ''Success'', created_at = utc_instant\<rparr>, None)"
  by (simp add: eval_validate example_valid_row_def utc_instant_def)

lemma vr_third:
  "validate_record ref_lib third_row =
     Inr (True, Model \<lparr>id' = ''3'', organization_id = ''org1'', amount = 100, currency = ''EUR'',
                       status = ''Success'', created_at = utc_instant\<rparr>, None)"
  by (simp add: eval_validate strip_23 third_row_def utc_instant_def)

lemma vr_negative:
  "validate_record ref_lib negative_amount_row =
     Inr (False, Raw negative_amount_row,
          Some [\<lparr>err_type = ''greater_than_equal'', err_loc = ''amount'', err_input = PStr ''-5'',
                 err_ctx = [(''ge'', PInt 0)]\<rparr>])"
  by (simp add: eval_validate strip_23 negative_amount_row_def)

lemma vr_example_invalid:
  "validate_record ref_lib example_invalid_row =
     Inr (False, Raw example_invalid_row,
          Some [\<lparr>err_type = ''string_too_short'', err_loc = ''id'', err_input = PStr [],
                  err_ctx = [(''min_length'', PInt 1)]\<rparr>,
                \<lparr>err_type = ''greater_than_equal'', err_loc = ''amount'',
                  err_input = PStr ''-5'', err_ctx = [(''ge'', PInt 0)]\<rparr>,
                \<lparr>err_type = ''literal_error'', err_loc = ''currency'', err_input = PStr ''XXX'',
                  err_ctx = [(''expected'', PStr (expected_text [''EUR'', ''USD'', ''GBP'']))]\<rparr>,
                \<lparr>err_type = ''literal_error'', err_loc = ''status'', err_input = PStr ''Done'',
                  err_ctx =
                    [(''expected'', PStr (expected_text [''Success'', ''Error'', ''Pending'']))]\<rparr>,
                \<lparr>err_type = ''value_error'', err_loc = ''created_at'',
                  err_input = PStr ''2025-11-10T10:00:00'',
                  err_ctx = [(''error'',
                              PExc ''ValueError'' ''created_at must be a UTC timestamp'')]\<rparr>])"
  by (simp add: eval_validate example_invalid_row_def)

lemma valid_rows_eval:
  "is_valid_row ref_lib example_valid_row" "\<not> is_valid_row ref_lib negative_amount_row"
  "is_valid_row ref_lib third_row"
  by (simp_all add: is_valid_row_def vr_example_valid vr_negative vr_third)

lemma negative_dumps_ok: "dumps_ok ref_lib negative_amount_row"
  by (simp add: dumps_ok_def is_valid_row_def row_errors_def vr_negative invalid_entry_def
        py_of_errors_def py_of_error_def py_of_row_serializable)

lemma blank_id_errors:
  "\<exists>es. field_errors L blank_id_row =
     \<lparr>err_type = ''value_error'', err_loc = ''id'', err_input = PStr '' '',
       err_ctx = [(''error'', PExc ''ValueError'' ''must be non-empty'')]\<rparr> # es"
  by (simp add: field_errors_def validate_str_field_eq blank_id_row_def strip_1)

lemma blank_id_raises:
  "process_rows L (blank_id_row # rows) (vl, il) =
     Inl (TypeError ''Object of type ValueError is not JSON serializable'')"
proof -
  from blank_id_errors obtain es where
    fe: "field_errors L blank_id_row =
      \<lparr>err_type = ''value_error'', err_loc = ''id'', err_input = PStr '' '',
        err_ctx = [(''error'', PExc ''ValueError'' ''must be non-empty'')]\<rparr> # es" by blast
  then have vr: "validate_record L blank_id_row = Inr (False, Raw blank_id_row, Some (field_errors L blank_id_row))"
    by (simp add: validate_record_cases)
  then have nv: "\<not> is_valid_row L blank_id_row" and re: "row_errors L blank_id_row = Some (field_errors L blank_id_row)"
    by (simp_all add: is_valid_row_def row_errors_def)
  have "first_unserializable (invalid_entry blank_id_row (row_errors L blank_id_row)) = Some ''ValueError''"
    unfolding re fe by (simp add: invalid_entry_unserializable py_of_error_def)
  then show ?thesis
    by (simp add: process_rows_step_invalid[OF nv])
qed

lemma example_invalid_raises:
  "process_rows ref_lib (example_invalid_row # rows) (vl, il) =
     Inl (TypeError ''Object of type ValueError is not JSON serializable'')"
  by (simp add: process_rows.simps(2) vr_example_invalid json_dumps_def invalid_entry_def
        py_of_errors_def py_of_error_def py_of_row_serializable)

subsection \<open>The handler after the loop\<close>

lemma handler_Inr:
  assumes "handler L lbucket ikey gbucket rows = Inr (res, puts)"
  obtains vl il vkey invkey where
    "process_rows L rows ([], []) = Inr (vl, il)"
    "build_output_keys ikey = Inr (vkey, invkey)"
    "res = \<lparr>landing_bucket = lbucket, input_key = ikey, green_bucket = gbucket,
             valid_key = vkey, invalid_key = invkey,
             valid_count = length vl, invalid_count = length il\<rparr>"
    "puts = (if vl \<noteq> []
             then [\<lparr>Bucket = gbucket, Key = vkey, Body = join [CHR 0x0A] vl,
                    ContentType = ''application/json''\<rparr>]
             else []) @
            (if il \<noteq> []
             then [\<lparr>Bucket = gbucket, Key = invkey, Body = join [CHR 0x0A] il,
                    ContentType = ''application/json''\<rparr>]
             else [])"
  using assms
  by (auto simp: handler_def Let_def split: sum.splits prod.splits)

lemma output_keys_differ:
  "build_output_keys ikey = Inr (vkey, invkey) \<Longrightarrow> vkey \<noteq> invkey"
  by (auto simp: build_output_keys_def Let_def split: if_splits)

lemma negative_rows_loop:
  "process_rows ref_lib [negative_amount_row] ([], []) =
     Inr ([], [invalid_line ref_lib negative_amount_row])"
  using process_rows_step_invalid[OF valid_rows_eval(2), of "[]" "[]" "[]"] negative_dumps_ok
  by (simp add: dumps_ok_def valid_rows_eval)



subsection \<open>The rendering of a UTC timestamp\<close>









subsection \<open>Rows whose line json.dumps can write\<close>

lemma first_some_map_None:
  "first_some (map f xs) = None \<longleftrightarrow> (\<forall>x\<in>set xs. f x = None)"
  by (induction xs) (auto split: option.splits, (metis first_some.simps(2,3) option.exhaust)+)

lemma first_some_single: "first_some [x] = x"
  by (cases x) simp_all

lemma str_field_entries:
  "(\<forall>e\<in>set (errors_of (validate_str_field f raw)).
      first_unserializable (py_of_error e) = None) \<longleftrightarrow> \<not> blank_field raw f"
  by (auto simp: validate_str_field_eq missing_field_def py_of_error_def py_of_row_serializable
        blank_field_def split: option.splits if_splits)

lemma amount_entries:
  "e \<in> set (errors_of (validate_amount L raw)) \<Longrightarrow> first_unserializable (py_of_error e) = None"
  by (auto simp: validate_amount_def missing_field_def py_of_error_def py_of_row_serializable
           split: option.splits if_splits)

lemma literal_entries:
  "e \<in> set (errors_of (validate_literal f allowed raw)) \<Longrightarrow>
   first_unserializable (py_of_error e) = None"
  by (auto simp: validate_literal_def missing_field_def py_of_error_def py_of_row_serializable
           split: option.splits if_splits)

lemma created_at_entries:
  "(\<forall>e\<in>set (errors_of (validate_created_at L raw)).
      first_unserializable (py_of_error e) = None) \<longleftrightarrow> \<not> not_utc_field L raw"
  by (auto simp: validate_created_at_eq missing_field_def py_of_error_def py_of_row_serializable
        not_utc_field_def split: option.splits sum.splits if_splits)

lemma field_errors_entries:
  "(\<forall>e\<in>set (field_errors L raw). first_unserializable (py_of_error e) = None) \<longleftrightarrow>
   \<not> validator_raises L raw"
  unfolding field_errors_def set_append ball_Un validator_raises_def
  using str_field_entries[of "''id''" raw] str_field_entries[of "''organization_id''" raw]
        created_at_entries[of L raw] amount_entries[of _ L raw] literal_entries
  by blast

lemma dumps_ok_iff: "dumps_ok L row \<longleftrightarrow> \<not> validator_raises L row"
proof (cases "field_errors L row = []")
  case True
  then have "is_valid_row L row"
    by (simp add: is_valid_row_def validate_record_cases)
  moreover from True have "\<not> validator_raises L row"
    using field_errors_entries[of L row] by simp
  ultimately show ?thesis by (simp add: dumps_ok_def)
next
  case False
  then have nv: "\<not> is_valid_row L row" and re: "row_errors L row = Some (field_errors L row)"
    by (simp_all add: is_valid_row_def row_errors_def validate_record_cases)
  have "first_unserializable (invalid_entry row (Some (field_errors L row))) = None \<longleftrightarrow>
        (\<forall>e\<in>set (field_errors L row). first_unserializable (py_of_error e) = None)"
    by (simp add: invalid_entry_def py_of_errors_def py_of_row_serializable first_some_map_None
          first_some_single)
  with nv re show ?thesis
    by (simp add: dumps_ok_def field_errors_entries)
qed

lemma handler_returns_iff:
  "(\<exists>res puts. handler L lbucket ikey gbucket rows = Inr (res, puts)) \<longleftrightarrow>
   (\<forall>row\<in>set rows. \<not> validator_raises L row) \<and> suffix ''.csv'' ikey"
proof (cases "\<forall>row\<in>set rows. dumps_ok L row")
  case True
  from process_rows_returns[OF True] obtain vl il where
    "process_rows L rows ([], []) = Inr (vl, il)" by blast
  with True show ?thesis
    by (auto simp: handler_def dumps_ok_iff build_output_keys_def endswith_suffix Let_def)
next
  case False
  from process_rows_raises[OF False] obtain e where
    "process_rows L rows ([], []) = Inl e" by blast
  with False show ?thesis
    by (auto simp: handler_def dumps_ok_iff)
qed

section \<open>The claims about the handler\<close>

text \<open>
  Claim C3, which the code does not meet. The claim is that every input row ends in
  exactly one of the two output sequences and that the returned counts are their
  lengths. A row that fails through a \<^verbatim>\<open>ValueError\<close> of a field validator (an id or
  organization_id of whitespace only, or a created_at that is not UTC) has the
  exception instance in the context of its error entry, \<^verbatim>\<open>json.dumps\<close> raises
  \<^verbatim>\<open>TypeError\<close> on it, and the handler ends without any output or count: so for the
  row whose id is one space, under every library instance, and for the invalid example
  row of the specification on the reference instance. Lemma \<open>handler_returns_iff\<close>
  says on which inputs the handler returns, and lemma \<open>handler_counts\<close> that the
  counts are then the lengths of the two sequences and add up to the number of rows.
\<close>

theorem handler_raises_on_value_error:
  "handler L lbucket ikey gbucket [blank_id_row] =
     Inl (TypeError ''Object of type ValueError is not JSON serializable'') \<and>
   handler ref_lib lbucket ikey gbucket [example_invalid_row] =
     Inl (TypeError ''Object of type ValueError is not JSON serializable'')"
  by (simp add: handler_def blank_id_raises example_invalid_raises)

text \<open>
  Claim C4. Whenever the loop ends normally, the valid lines are the lines of the
  accepted rows in the order of the input, and the invalid lines are the lines of the
  rejected rows in the order of the input; and it ends normally, with these two
  sequences, on every input whose lines \<^verbatim>\<open>json.dumps\<close> can write, that is, on whose
  rows no field validator raises (lemma \<open>dumps_ok_iff\<close>).
\<close>

theorem process_rows_order:
  "(\<forall>valid_lines invalid_lines.
      process_rows L rows ([], []) = Inr (valid_lines, invalid_lines) \<longrightarrow>
      valid_lines = map (valid_line L) (filter (is_valid_row L) rows) \<and>
      invalid_lines = map (invalid_line L) (filter (\<lambda>r. \<not> is_valid_row L r) rows)) \<and>
   ((\<forall>row\<in>set rows. dumps_ok L row) \<longrightarrow>
      process_rows L rows ([], []) =
        Inr (map (valid_line L) (filter (is_valid_row L) rows),
             map (invalid_line L) (filter (\<lambda>r. \<not> is_valid_row L r) rows)))"
proof (intro conjI allI impI)
  fix valid_lines invalid_lines
  assume "process_rows L rows ([], []) = Inr (valid_lines, invalid_lines)"
  from process_rows_result[OF this]
  show "valid_lines = map (valid_line L) (filter (is_valid_row L) rows)"
    and "invalid_lines = map (invalid_line L) (filter (\<lambda>r. \<not> is_valid_row L r) rows)"
    by simp_all
next
  assume "\<forall>row\<in>set rows. dumps_ok L row"
  from process_rows_returns[OF this] obtain vl il where
    p: "process_rows L rows ([], []) = Inr (vl, il)" by blast
  from process_rows_result[OF p] p
  show "process_rows L rows ([], []) =
        Inr (map (valid_line L) (filter (is_valid_row L) rows),
             map (invalid_line L) (filter (\<lambda>r. \<not> is_valid_row L r) rows))"
    by simp
qed

text \<open>
  An accepted row, a rejected one (negative amount) and another accepted one: the two
  accepted rows keep their order in the valid lines.
\<close>

theorem process_rows_order_witness:
  "process_rows ref_lib [example_valid_row, negative_amount_row, third_row] ([], []) =
     Inr ([valid_line ref_lib example_valid_row, valid_line ref_lib third_row],
          [invalid_line ref_lib negative_amount_row])"
proof -
  have ok: "\<forall>row\<in>set [example_valid_row, negative_amount_row, third_row]. dumps_ok ref_lib row"
    by (simp add: negative_dumps_ok) (simp add: dumps_ok_def valid_rows_eval)
  have "process_rows ref_lib [example_valid_row, negative_amount_row, third_row] ([], []) =
          Inr (map (valid_line ref_lib)
                 (filter (is_valid_row ref_lib)
                    [example_valid_row, negative_amount_row, third_row]),
               map (invalid_line ref_lib)
                 (filter (\<lambda>r. \<not> is_valid_row ref_lib r)
                    [example_valid_row, negative_amount_row, third_row]))"
    using process_rows_order[of ref_lib "[example_valid_row, negative_amount_row, third_row]"] ok
    by blast
  then show ?thesis by (simp add: valid_rows_eval)
qed

text \<open>
  Claim C7. A row that \<open>validate_record\<close> rejects is returned as it was given, the
  strings of its fields unchanged and not coerced; and every invalid line the loop
  appends is the JSON text of the dict whose \<^verbatim>\<open>row\<close> member holds the field strings of
  its source row as they were read, next to the errors. The validator is a function of
  the row and writes to nothing: the row after the call is the row before it, whether
  the row is accepted or rejected.
\<close>

theorem rejected_row_verbatim:
  "(\<forall>ok v errs. validate_record L raw = Inr (ok, v, errs) \<and> \<not> ok \<longrightarrow> v = Raw raw) \<and>
   (\<forall>vl il. process_rows L rows ([], []) = Inr (vl, il) \<longrightarrow>
      il = map (\<lambda>row. json_text L
                        (PDict [(''row'', PDict (map (\<lambda>(k, v). (k, PStr v)) row)),
                                (''errors'', py_of_errors (row_errors L row))]))
               (filter (\<lambda>r. \<not> is_valid_row L r) rows))"
proof (intro conjI allI impI)
  fix ok v errs
  assume "validate_record L raw = Inr (ok, v, errs) \<and> \<not> ok"
  then show "v = Raw raw"
    by (auto simp: validate_record_cases split: if_splits)
next
  fix vl il
  assume "process_rows L rows ([], []) = Inr (vl, il)"
  from process_rows_result[OF this]
  have "il = map (invalid_line L) (filter (\<lambda>r. \<not> is_valid_row L r) rows)" by simp
  moreover have "invalid_line L = (\<lambda>row. json_text L
                        (PDict [(''row'', PDict (map (\<lambda>(k, v). (k, PStr v)) row)),
                                (''errors'', py_of_errors (row_errors L row))]))"
    by (rule ext) (simp add: invalid_line_def invalid_entry_def py_of_row_def)
  ultimately show "il = map (\<lambda>row. json_text L
                        (PDict [(''row'', PDict (map (\<lambda>(k, v). (k, PStr v)) row)),
                                (''errors'', py_of_errors (row_errors L row))]))
               (filter (\<lambda>r. \<not> is_valid_row L r) rows)"
    by simp
qed

text \<open>
  The row with a negative amount is returned as it is, and its invalid line holds
  \<^verbatim>\<open>-5\<close> as the string read.
\<close>

theorem rejected_row_verbatim_witness:
  "(\<exists>errs. validate_record ref_lib negative_amount_row =
             Inr (False, Raw negative_amount_row, errs)) \<and>
   process_rows ref_lib [negative_amount_row] ([], []) =
     Inr ([],
          [json_text ref_lib
             (PDict [(''row'',
                      PDict [(''id'', PStr ''2''), (''organization_id'', PStr ''org1''),
                             (''amount'', PStr ''-5''), (''currency'', PStr ''EUR''),
                             (''status'', PStr ''Success''),
                             (''created_at'', PStr ''2025-11-10T10:00:00+00:00'')]),
                     (''errors'',
                      PList [py_of_error
                               \<lparr>err_type = ''greater_than_equal'', err_loc = ''amount'',
                                 err_input = PStr ''-5'', err_ctx = [(''ge'', PInt 0)]\<rparr>])])])"
proof -
  obtain v errs where
    vr: "validate_record ref_lib negative_amount_row = Inr (False, v, errs)"
    by (simp add: vr_negative)
  with rejected_row_verbatim[of ref_lib negative_amount_row "[negative_amount_row]"]
  have v: "v = Raw negative_amount_row" by blast
  from rejected_row_verbatim[of ref_lib negative_amount_row "[negative_amount_row]"]
    negative_rows_loop
  have "[invalid_line ref_lib negative_amount_row] =
          map (\<lambda>row. json_text ref_lib
                        (PDict [(''row'', PDict (map (\<lambda>(k, v). (k, PStr v)) row)),
                                (''errors'', py_of_errors (row_errors ref_lib row))]))
               (filter (\<lambda>r. \<not> is_valid_row ref_lib r) [negative_amount_row])"
    by blast
  then have "invalid_line ref_lib negative_amount_row =
     json_text ref_lib
             (PDict [(''row'',
                      PDict [(''id'', PStr ''2''), (''organization_id'', PStr ''org1''),
                             (''amount'', PStr ''-5''), (''currency'', PStr ''EUR''),
                             (''status'', PStr ''Success''),
                             (''created_at'', PStr ''2025-11-10T10:00:00+00:00'')]),
                     (''errors'',
                      PList [py_of_error
                               \<lparr>err_type = ''greater_than_equal'', err_loc = ''amount'',
                                 err_input = PStr ''-5'', err_ctx = [(''ge'', PInt 0)]\<rparr>])])"
    by (simp add: valid_rows_eval row_errors_def vr_negative py_of_errors_def)
       (simp add: negative_amount_row_def)
  with vr v negative_rows_loop show ?thesis by auto
qed

text \<open>
  Claim C8. Whenever the handler returns, it made one \<^verbatim>\<open>put_object\<close> call for the
  valid key exactly when the valid count is not zero and one for the invalid key
  exactly when the invalid count is not zero, each with the lines of its rows joined by
  newlines; the counts are the numbers of accepted and rejected rows; the two keys
  differ. With no rows and a key ending in \<^verbatim>\<open>.csv\<close> it returns, writes nothing, and both
  counts are zero.
\<close>

theorem handler_payloads:
  "(\<forall>res puts. handler L lbucket ikey gbucket rows = Inr (res, puts) \<longrightarrow>
      puts =
        (if valid_count res = 0 then []
         else [\<lparr>Bucket = gbucket, Key = valid_key res,
                 Body = join [CHR 0x0A] (map (valid_line L) (filter (is_valid_row L) rows)),
                 ContentType = ''application/json''\<rparr>]) @
        (if invalid_count res = 0 then []
         else [\<lparr>Bucket = gbucket, Key = invalid_key res,
                 Body = join [CHR 0x0A]
                          (map (invalid_line L) (filter (\<lambda>r. \<not> is_valid_row L r) rows)),
                 ContentType = ''application/json''\<rparr>]) \<and>
      valid_count res = length (filter (is_valid_row L) rows) \<and>
      invalid_count res = length (filter (\<lambda>r. \<not> is_valid_row L r) rows) \<and>
      valid_key res \<noteq> invalid_key res) \<and>
   (suffix ''.csv'' ikey \<longrightarrow>
      (\<exists>res. handler L lbucket ikey gbucket [] = Inr (res, []) \<and>
             valid_count res = 0 \<and> invalid_count res = 0))"
proof (intro conjI allI impI)
  fix res puts
  assume h: "handler L lbucket ikey gbucket rows = Inr (res, puts)"
  from h obtain vl il vkey invkey where
    p: "process_rows L rows ([], []) = Inr (vl, il)" and
    k: "build_output_keys ikey = Inr (vkey, invkey)" and
    r: "res = \<lparr>landing_bucket = lbucket, input_key = ikey, green_bucket = gbucket,
             valid_key = vkey, invalid_key = invkey,
             valid_count = length vl, invalid_count = length il\<rparr>" and
    u: "puts = (if vl \<noteq> []
             then [\<lparr>Bucket = gbucket, Key = vkey, Body = join [CHR 0x0A] vl,
                    ContentType = ''application/json''\<rparr>]
             else []) @
            (if il \<noteq> []
             then [\<lparr>Bucket = gbucket, Key = invkey, Body = join [CHR 0x0A] il,
                    ContentType = ''application/json''\<rparr>]
             else [])"
    by (rule handler_Inr)
  from process_rows_result[OF p] have
    vl: "vl = map (valid_line L) (filter (is_valid_row L) rows)" and
    il: "il = map (invalid_line L) (filter (\<lambda>r. \<not> is_valid_row L r) rows)"
    by simp_all
  show "valid_count res = length (filter (is_valid_row L) rows)"
    by (simp add: r vl)
  show "invalid_count res = length (filter (\<lambda>r. \<not> is_valid_row L r) rows)"
    by (simp add: r il)
  show "valid_key res \<noteq> invalid_key res"
    using output_keys_differ[OF k] by (simp add: r)
  have c: "valid_count res = length vl" "invalid_count res = length il"
    "valid_key res = vkey" "invalid_key res = invkey"
    by (simp_all add: r)
  show "puts =
        (if valid_count res = 0 then []
         else [\<lparr>Bucket = gbucket, Key = valid_key res,
                 Body = join [CHR 0x0A] (map (valid_line L) (filter (is_valid_row L) rows)),
                 ContentType = ''application/json''\<rparr>]) @
        (if invalid_count res = 0 then []
         else [\<lparr>Bucket = gbucket, Key = invalid_key res,
                 Body = join [CHR 0x0A]
                          (map (invalid_line L) (filter (\<lambda>r. \<not> is_valid_row L r) rows)),
                 ContentType = ''application/json''\<rparr>])"
    unfolding c u vl[symmetric] il[symmetric] by simp
next
  assume "suffix ''.csv'' ikey"
  then show "\<exists>res. handler L lbucket ikey gbucket [] = Inr (res, []) \<and>
             valid_count res = 0 \<and> invalid_count res = 0"
    by (simp add: handler_def build_output_keys_def endswith_suffix Let_def)
qed

text \<open>
  No rows: nothing is written. One rejected row: the invalid payload alone is
  written.
\<close>

theorem handler_payloads_witness:
  "(\<exists>res. handler ref_lib ''landing'' ''a/b/x.csv'' ''green'' [] = Inr (res, []) \<and>
          valid_count res = 0 \<and> invalid_count res = 0) \<and>
   (\<exists>res p. handler ref_lib ''landing'' ''a/b/x.csv'' ''green'' [negative_amount_row] =
              Inr (res, [p]) \<and>
            valid_count res = 0 \<and> invalid_count res = 1 \<and> Key p = ''a/b/x_invalid.jsonl'')"
proof -
  have s: "suffix ''.csv'' ''a/b/x.csv''" by (simp add: suffix_def)
  have k: "build_output_keys ''a/b/x.csv'' = Inr (''a/b/x_valid.jsonl'', ''a/b/x_invalid.jsonl'')"
    by (simp add: build_output_keys_def endswith_def)
  obtain res puts where
    h: "handler ref_lib ''landing'' ''a/b/x.csv'' ''green'' [negative_amount_row] = Inr (res, puts)"
    and ik: "invalid_key res = ''a/b/x_invalid.jsonl''"
    by (simp add: handler_def negative_rows_loop k)
  from handler_payloads[of ref_lib "''landing''" "''a/b/x.csv''" "''green''" "[negative_amount_row]"] h
  have "puts =
        (if valid_count res = 0 then []
         else [\<lparr>Bucket = ''green'', Key = valid_key res,
                 Body = join [CHR 0x0A] (map (valid_line ref_lib)
                          (filter (is_valid_row ref_lib) [negative_amount_row])),
                 ContentType = ''application/json''\<rparr>]) @
        (if invalid_count res = 0 then []
         else [\<lparr>Bucket = ''green'', Key = invalid_key res,
                 Body = join [CHR 0x0A]
                          (map (invalid_line ref_lib)
                             (filter (\<lambda>r. \<not> is_valid_row ref_lib r) [negative_amount_row])),
                 ContentType = ''application/json''\<rparr>])"
    and "valid_count res = length (filter (is_valid_row ref_lib) [negative_amount_row])"
    and "invalid_count res =
           length (filter (\<lambda>r. \<not> is_valid_row ref_lib r) [negative_amount_row])"
    by blast+
  then have "\<exists>p. puts = [p] \<and> Key p = ''a/b/x_invalid.jsonl''"
    and "valid_count res = 0" and "invalid_count res = 1"
    by (simp_all add: valid_rows_eval ik)
  with h have 2: "\<exists>res p. handler ref_lib ''landing'' ''a/b/x.csv'' ''green'' [negative_amount_row] =
              Inr (res, [p]) \<and>
            valid_count res = 0 \<and> invalid_count res = 1 \<and> Key p = ''a/b/x_invalid.jsonl''"
    by blast
  from handler_payloads[of ref_lib "''landing''" "''a/b/x.csv''" "''green''" "[]"] s
  have 1: "\<exists>res. handler ref_lib ''landing'' ''a/b/x.csv'' ''green'' [] = Inr (res, []) \<and>
          valid_count res = 0 \<and> invalid_count res = 0"
    by blast
  from 1 2 show ?thesis by blast
qed



end
